theory Spec2Isabelle
  imports Main "HOL-Library.Word"
begin

unbundle bit_operations_syntax

section \<open>Machine integers of the Go source\<close>

type_synonym uint8 = "8 word"
type_synonym uint16 = "16 word"
type_synonym uint64 = "64 word"

section \<open>Address space (package memory)\<close>

text \<open>
  \<^verbatim>\<open>BasicMemory\<close> holds three Go arrays: \<^verbatim>\<open>rom [0x8000]uint8\<close>,
  \<^verbatim>\<open>wram [0x2000]uint8\<close> and \<^verbatim>\<open>hram [0x7F]uint8\<close>. They are lists here; the
  length that the Go array type fixes is the predicate \<open>array_sizes\<close> below.
\<close>

record BasicMemory =
  rom :: "uint8 list"
  wram :: "uint8 list"
  hram :: "uint8 list"

definition array_sizes :: "BasicMemory \<Rightarrow> bool" where
  "array_sizes m \<longleftrightarrow>
     length (rom m) = 0x8000 \<and> length (wram m) = 0x2000 \<and> length (hram m) = 0x7F"

text \<open>\<^verbatim>\<open>NewBasicMemory\<close>: Go zero-initialises the arrays.\<close>

definition NewBasicMemory :: BasicMemory where
  "NewBasicMemory =
     \<lparr>rom = replicate 0x8000 0, wram = replicate 0x2000 0, hram = replicate 0x7F 0\<rparr>"

text \<open>\<^verbatim>\<open>Read\<close>: the switch of the source, first matching case wins.\<close>

definition Read :: "BasicMemory \<Rightarrow> uint16 \<Rightarrow> uint8" where
  "Read m addr =
     (if addr \<le> 0x7FFF then rom m ! unat addr
      else if addr \<ge> 0xC000 \<and> addr \<le> 0xDFFF then wram m ! unat (addr - 0xC000)
      else if addr \<ge> 0xE000 \<and> addr \<le> 0xFDFF then wram m ! unat (addr - 0xE000)
      else if addr \<ge> 0xFF80 \<and> addr \<le> 0xFFFE then hram m ! unat (addr - 0xFF80)
      else 0xFF)"

text \<open>\<^verbatim>\<open>Write\<close>: the receiver is mutated in place; the model returns the new state.\<close>

definition Write :: "BasicMemory \<Rightarrow> uint16 \<Rightarrow> uint8 \<Rightarrow> BasicMemory" where
  "Write m addr val =
     (if addr \<le> 0x7FFF then m\<lparr>rom := (rom m)[unat addr := val]\<rparr>
      else if addr \<ge> 0xC000 \<and> addr \<le> 0xDFFF
        then m\<lparr>wram := (wram m)[unat (addr - 0xC000) := val]\<rparr>
      else if addr \<ge> 0xE000 \<and> addr \<le> 0xFDFF
        then m\<lparr>wram := (wram m)[unat (addr - 0xE000) := val]\<rparr>
      else if addr \<ge> 0xFF80 \<and> addr \<le> 0xFFFE
        then m\<lparr>hram := (hram m)[unat (addr - 0xFF80) := val]\<rparr>
      else m)"

text \<open>
  Go's builtin \<^verbatim>\<open>copy(dst, src)\<close> overwrites the first
  \<^verbatim>\<open>min(len(dst), len(src))\<close> elements of \<^verbatim>\<open>dst\<close> and leaves the rest.
\<close>

definition copy_slice :: "'a list \<Rightarrow> 'a list \<Rightarrow> 'a list" where
  "copy_slice dst src =
     (let n = min (length dst) (length src) in take n src @ drop n dst)"

text \<open>
  The one error of the load path,
  \<^verbatim>\<open>fmt.Errorf("ROM data too large: %d bytes (max %d)", len(data), len(m.rom))\<close>,
  carrying its two numbers.
\<close>

datatype error = ROMTooLarge nat nat

text \<open>
  \<^verbatim>\<open>LoadROM\<close> returns the error value (\<open>None\<close> for \<^verbatim>\<open>nil\<close>) together with
  the state of the receiver after the call.
\<close>

definition LoadROM :: "BasicMemory \<Rightarrow> uint8 list \<Rightarrow> error option \<times> BasicMemory" where
  "LoadROM m data =
     (if length data > length (rom m)
      then (Some (ROMTooLarge (length data) (length (rom m))), m)
      else (None, m\<lparr>rom := copy_slice (rom m) data\<rparr>))"

definition DirectWrite :: "BasicMemory \<Rightarrow> uint16 \<Rightarrow> uint8 \<Rightarrow> BasicMemory" where
  "DirectWrite m addr val =
     (if addr \<le> 0x7FFF then m\<lparr>rom := (rom m)[unat addr := val]\<rparr> else m)"

section \<open>Register file (package processor)\<close>

record Registers =
  A :: uint8
  F :: uint8
  B :: uint8
  C :: uint8
  D :: uint8
  E :: uint8
  H :: uint8
  L :: uint8
  SP :: uint16
  PC :: uint16

definition FlagZ :: uint8 where "FlagZ = 0x80"
definition FlagN :: uint8 where "FlagN = 0x40"
definition FlagH :: uint8 where "FlagH = 0x20"
definition FlagC :: uint8 where "FlagC = 0x10"

definition NewRegisters :: Registers where
  "NewRegisters =
     \<lparr>A = 0x00, F = 0x00, B = 0x00, C = 0x00, D = 0x00, E = 0x00, H = 0x00, L = 0x00,
      SP = 0xFFFE, PC = 0x0000\<rparr>"

subsection \<open>Register pairs\<close>

definition AF :: "Registers \<Rightarrow> uint16" where
  "AF r = push_bit 8 (ucast (A r)) OR ucast (F r)"

definition BC :: "Registers \<Rightarrow> uint16" where
  "BC r = push_bit 8 (ucast (B r)) OR ucast (C r)"

definition DE :: "Registers \<Rightarrow> uint16" where
  "DE r = push_bit 8 (ucast (D r)) OR ucast (E r)"

definition HL :: "Registers \<Rightarrow> uint16" where
  "HL r = push_bit 8 (ucast (H r)) OR ucast (L r)"

definition SetAF :: "Registers \<Rightarrow> uint16 \<Rightarrow> Registers" where
  "SetAF r v = r\<lparr>A := ucast (drop_bit 8 v), F := ucast v AND 0xF0\<rparr>"

definition SetBC :: "Registers \<Rightarrow> uint16 \<Rightarrow> Registers" where
  "SetBC r v = r\<lparr>B := ucast (drop_bit 8 v), C := ucast v\<rparr>"

definition SetDE :: "Registers \<Rightarrow> uint16 \<Rightarrow> Registers" where
  "SetDE r v = r\<lparr>D := ucast (drop_bit 8 v), E := ucast v\<rparr>"

definition SetHL :: "Registers \<Rightarrow> uint16 \<Rightarrow> Registers" where
  "SetHL r v = r\<lparr>H := ucast (drop_bit 8 v), L := ucast v\<rparr>"

subsection \<open>Flags\<close>

definition GetFlag :: "Registers \<Rightarrow> uint8 \<Rightarrow> bool" where
  "GetFlag r flag \<longleftrightarrow> F r AND flag \<noteq> 0"

definition GetFlagZ :: "Registers \<Rightarrow> bool" where "GetFlagZ r = GetFlag r FlagZ"
definition GetFlagN :: "Registers \<Rightarrow> bool" where "GetFlagN r = GetFlag r FlagN"
definition GetFlagH :: "Registers \<Rightarrow> bool" where "GetFlagH r = GetFlag r FlagH"
definition GetFlagC :: "Registers \<Rightarrow> bool" where "GetFlagC r = GetFlag r FlagC"

text \<open>\<^verbatim>\<open>r.F |= flag\<close> when the value is true, \<^verbatim>\<open>r.F &^= flag\<close> otherwise.\<close>

definition SetFlag :: "Registers \<Rightarrow> uint8 \<Rightarrow> bool \<Rightarrow> Registers" where
  "SetFlag r flag val =
     (if val then r\<lparr>F := F r OR flag\<rparr> else r\<lparr>F := F r AND NOT flag\<rparr>)"

definition SetFlagZ :: "Registers \<Rightarrow> bool \<Rightarrow> Registers" where
  "SetFlagZ r val = SetFlag r FlagZ val"
definition SetFlagN :: "Registers \<Rightarrow> bool \<Rightarrow> Registers" where
  "SetFlagN r val = SetFlag r FlagN val"
definition SetFlagH :: "Registers \<Rightarrow> bool \<Rightarrow> Registers" where
  "SetFlagH r val = SetFlag r FlagH val"
definition SetFlagC :: "Registers \<Rightarrow> bool \<Rightarrow> Registers" where
  "SetFlagC r val = SetFlag r FlagC val"

definition SetFlags :: "Registers \<Rightarrow> bool \<Rightarrow> bool \<Rightarrow> bool \<Rightarrow> bool \<Rightarrow> Registers" where
  "SetFlags r z n h c =
     (let r0 = r\<lparr>F := 0\<rparr>;
          r1 = (if z then r0\<lparr>F := F r0 OR FlagZ\<rparr> else r0);
          r2 = (if n then r1\<lparr>F := F r1 OR FlagN\<rparr> else r1);
          r3 = (if h then r2\<lparr>F := F r2 OR FlagH\<rparr> else r2);
          r4 = (if c then r3\<lparr>F := F r3 OR FlagC\<rparr> else r3)
      in r4)"

section \<open>Instruction execution core (package processor)\<close>

text \<open>
  The \<^verbatim>\<open>Memory\<close> field of the source has interface type \<^verbatim>\<open>memory.Memory\<close>;
  \<^verbatim>\<open>BasicMemory\<close> is its only implementation in the repository and is the one
  the core is modelled with.
\<close>

record CPU =
  Registers :: Registers
  Memory :: BasicMemory
  Halted :: bool
  TotalCycles :: uint64

definition NewCPU :: "BasicMemory \<Rightarrow> CPU" where
  "NewCPU mem = \<lparr>Registers = NewRegisters, Memory = mem, Halted = False, TotalCycles = 0\<rparr>"

text \<open>\<^verbatim>\<open>fetchByte\<close> returns the byte at PC and the core with PC incremented.\<close>

definition fetchByte :: "CPU \<Rightarrow> uint8 \<times> CPU" where
  "fetchByte cpu =
     (let val = Read (Memory cpu) (PC (Registers cpu))
      in (val, cpu\<lparr>Registers := (Registers cpu)\<lparr>PC := PC (Registers cpu) + 1\<rparr>\<rparr>))"

definition fetchWord :: "CPU \<Rightarrow> uint16 \<times> CPU" where
  "fetchWord cpu =
     (let (low, cpu1) = fetchByte cpu;
          (high, cpu2) = fetchByte cpu1
      in (push_bit 8 (ucast high) OR ucast low, cpu2))"

subsection \<open>Opcode handlers\<close>

definition opUnknown :: "CPU \<Rightarrow> CPU" where
  "opUnknown cpu = cpu"

definition opNOP :: "CPU \<Rightarrow> CPU" where
  "opNOP cpu = cpu"

definition opLD_A_n :: "CPU \<Rightarrow> CPU" where
  "opLD_A_n cpu =
     (let (val, cpu1) = fetchByte cpu in cpu1\<lparr>Registers := (Registers cpu1)\<lparr>A := val\<rparr>\<rparr>)"

definition opLD_B_n :: "CPU \<Rightarrow> CPU" where
  "opLD_B_n cpu =
     (let (val, cpu1) = fetchByte cpu in cpu1\<lparr>Registers := (Registers cpu1)\<lparr>B := val\<rparr>\<rparr>)"

definition opLD_C_n :: "CPU \<Rightarrow> CPU" where
  "opLD_C_n cpu =
     (let (val, cpu1) = fetchByte cpu in cpu1\<lparr>Registers := (Registers cpu1)\<lparr>C := val\<rparr>\<rparr>)"

definition opLD_A_B :: "CPU \<Rightarrow> CPU" where
  "opLD_A_B cpu = cpu\<lparr>Registers := (Registers cpu)\<lparr>A := B (Registers cpu)\<rparr>\<rparr>"

definition opLD_A_C :: "CPU \<Rightarrow> CPU" where
  "opLD_A_C cpu = cpu\<lparr>Registers := (Registers cpu)\<lparr>A := C (Registers cpu)\<rparr>\<rparr>"

text \<open>
  \<^verbatim>\<open>opADD_A_B\<close>: the sum \<open>a + b\<close> is a \<^verbatim>\<open>uint8\<close> sum and wraps, as does the sum
  of the two low nibbles (which cannot exceed 30); the carry is computed on
  \<^verbatim>\<open>uint16\<close>.
\<close>

definition opADD_A_B :: "CPU \<Rightarrow> CPU" where
  "opADD_A_B cpu =
     (let a = A (Registers cpu);
          b = B (Registers cpu);
          result = a + b;
          r1 = SetFlagZ (Registers cpu) (result = 0);
          r2 = SetFlagN r1 False;
          r3 = SetFlagH r2 ((a AND 0x0F) + (b AND 0x0F) > 0x0F);
          r4 = SetFlagC r3 ((ucast a :: uint16) + ucast b > 0xFF)
      in cpu\<lparr>Registers := r4\<lparr>A := result\<rparr>\<rparr>)"

definition opJP_nn :: "CPU \<Rightarrow> CPU" where
  "opJP_nn cpu =
     (let (addr, cpu1) = fetchWord cpu in cpu1\<lparr>Registers := (Registers cpu1)\<lparr>PC := addr\<rparr>\<rparr>)"

subsection \<open>Dispatch table\<close>

record Opcode =
  Mnemonic :: string
  Bytes :: int
  Cycles :: int
  Execute :: "CPU \<Rightarrow> CPU"

text \<open>The two upper-case hexadecimal digits that \<^verbatim>\<open>%02X\<close> prints for a value below 256.\<close>

definition hex_digit :: "nat \<Rightarrow> char" where
  "hex_digit n = ''0123456789ABCDEF'' ! n"

definition hex02X :: "nat \<Rightarrow> string" where
  "hex02X i = [hex_digit (i div 16), hex_digit (i mod 16)]"

definition unknownOpcode :: "nat \<Rightarrow> Opcode" where
  "unknownOpcode i =
     \<lparr>Mnemonic = ''UNKNOWN_0x'' @ hex02X i, Bytes = 1, Cycles = 4, Execute = opUnknown\<rparr>"

text \<open>
  \<^verbatim>\<open>initOpcodes\<close>: the loop assigns the unknown descriptor to each of the 256 slots,
  then eight slots are overwritten, in the order of the source.
\<close>

definition opcodeTable :: "Opcode list" where
  "opcodeTable =
     (map unknownOpcode [0..<256])
       [0x00 := \<lparr>Mnemonic = ''NOP'', Bytes = 1, Cycles = 4, Execute = opNOP\<rparr>,
        0x3E := \<lparr>Mnemonic = ''LD A, n'', Bytes = 2, Cycles = 8, Execute = opLD_A_n\<rparr>,
        0x06 := \<lparr>Mnemonic = ''LD B, n'', Bytes = 2, Cycles = 8, Execute = opLD_B_n\<rparr>,
        0x0E := \<lparr>Mnemonic = ''LD C, n'', Bytes = 2, Cycles = 8, Execute = opLD_C_n\<rparr>,
        0x78 := \<lparr>Mnemonic = ''LD A, B'', Bytes = 1, Cycles = 4, Execute = opLD_A_B\<rparr>,
        0x79 := \<lparr>Mnemonic = ''LD A, C'', Bytes = 1, Cycles = 4, Execute = opLD_A_C\<rparr>,
        0x80 := \<lparr>Mnemonic = ''ADD A, B'', Bytes = 1, Cycles = 4, Execute = opADD_A_B\<rparr>,
        0xC3 := \<lparr>Mnemonic = ''JP nn'', Bytes = 3, Cycles = 16, Execute = opJP_nn\<rparr>]"

subsection \<open>The fetch-decode-execute step\<close>

text \<open>\<^verbatim>\<open>Step\<close> returns the cycle count and the core after the call.\<close>

definition Step :: "CPU \<Rightarrow> int \<times> CPU" where
  "Step cpu =
     (if Halted cpu then (4, cpu)
      else
        (let (opcode, cpu1) = fetchByte cpu;
             instruction = opcodeTable ! unat opcode;
             cpu2 = Execute instruction cpu1;
             cpu3 = cpu2\<lparr>TotalCycles := TotalCycles cpu2 + of_int (Cycles instruction)\<rparr>
         in (Cycles instruction, cpu3)))"

text \<open>
  The helper of the processor tests: a fresh memory with the program loaded (the error of
  \<^verbatim>\<open>LoadROM\<close> is ignored there) and a fresh core bound to it.
\<close>

definition setupCPU :: "uint8 list \<Rightarrow> CPU" where
  "setupCPU program = NewCPU (snd (LoadROM NewBasicMemory program))"

section \<open>Array bounds\<close>

text \<open>
  Indexing a Go array out of range panics. With the lengths of the array types, every
  index that \<^verbatim>\<open>Read\<close> and \<^verbatim>\<open>Write\<close> compute under their guards is in range,
  so neither has a panicking branch.
\<close>

lemma array_sizes_New: "array_sizes NewBasicMemory"
  by (simp add: array_sizes_def NewBasicMemory_def)

lemma rom_index_in_range:
  "array_sizes m \<Longrightarrow> (addr :: uint16) \<le> 0x7FFF \<Longrightarrow> unat addr < length (rom m)"
  by (simp add: array_sizes_def word_le_nat_alt)

lemma wram_index_in_range:
  "array_sizes m \<Longrightarrow> 0xC000 \<le> (addr :: uint16) \<Longrightarrow> addr \<le> 0xDFFF \<Longrightarrow>
     unat (addr - 0xC000) < length (wram m)"
  by (simp add: array_sizes_def) unat_arith

lemma echo_index_in_range:
  "array_sizes m \<Longrightarrow> 0xE000 \<le> (addr :: uint16) \<Longrightarrow> addr \<le> 0xFDFF \<Longrightarrow>
     unat (addr - 0xE000) < length (wram m)"
  by (simp add: array_sizes_def) unat_arith

lemma hram_index_in_range:
  "array_sizes m \<Longrightarrow> 0xFF80 \<le> (addr :: uint16) \<Longrightarrow> addr \<le> 0xFFFE \<Longrightarrow>
     unat (addr - 0xFF80) < length (hram m)"
  by (simp add: array_sizes_def) unat_arith

lemma array_sizes_Write: "array_sizes m \<Longrightarrow> array_sizes (Write m addr val)"
  by (simp add: array_sizes_def Write_def)

lemma length_copy_slice:
  "length src \<le> length dst \<Longrightarrow> length (copy_slice dst src) = length dst"
  by (simp add: copy_slice_def Let_def min_def)

lemma array_sizes_LoadROM: "array_sizes m \<Longrightarrow> array_sizes (snd (LoadROM m data))"
  by (simp add: array_sizes_def LoadROM_def length_copy_slice)

section \<open>Register pairs\<close>

lemma F0_mask: "(0xF0 :: uint8) = NOT (mask 4)"
  by (simp add: mask_eq_exp_minus_1)

lemma FFF0_mask: "(0xFFF0 :: uint16) = NOT (mask 4)"
  by (simp add: mask_eq_exp_minus_1)

lemma join_split_bytes:
  "push_bit 8 (ucast (ucast (drop_bit 8 v) :: uint8)) OR ucast (ucast v :: uint8) = (v :: uint16)"
  by (rule bit_word_eqI) (auto simp add: bit_simps)

lemma join_split_bytes_masked:
  "push_bit 8 (ucast (ucast (drop_bit 8 v) :: uint8)) OR ucast ((ucast v :: uint8) AND NOT (mask 4))
     = (v :: uint16) AND NOT (mask 4)"
  by (rule bit_word_eqI) (auto simp add: bit_simps)

text \<open>
  Claim C5. For every 16-bit value \<open>v\<close> and every register file, setting BC, DE or HL
  to \<open>v\<close> and reading the pair back yields \<open>v\<close>; setting AF to \<open>v\<close> and reading it
  back yields \<open>v AND 0xFFF0\<close>.
\<close>

theorem register_pair_round_trip:
  "BC (SetBC r v) = v \<and> DE (SetDE r v) = v \<and> HL (SetHL r v) = v \<and>
   AF (SetAF r v) = v AND 0xFFF0"
proof -
  have "BC (SetBC r v) = v" by (simp add: BC_def SetBC_def join_split_bytes)
  moreover have "DE (SetDE r v) = v" by (simp add: DE_def SetDE_def join_split_bytes)
  moreover have "HL (SetHL r v) = v" by (simp add: HL_def SetHL_def join_split_bytes)
  moreover have "AF (SetAF r v) = v AND 0xFFF0"
    unfolding FFF0_mask AF_def SetAF_def F0_mask
    by (simp add: join_split_bytes_masked del: bit.compl_one)
  ultimately show ?thesis by simp
qed

section \<open>Unmapped addresses\<close>

text \<open>
  Claim C6. For every address in \<open>0x8000\<close>--\<open>0xBFFF\<close>, \<open>0xFE00\<close>--\<open>0xFF7F\<close> or
  equal to \<open>0xFFFF\<close>, and every memory state: \<^verbatim>\<open>Read\<close> of the address yields
  \<open>0xFF\<close>, and \<^verbatim>\<open>Write\<close> to it returns the state unchanged, so that every later
  \<^verbatim>\<open>Read\<close> of every address gives what it gave without the write.
\<close>

theorem unmapped_read_write:
  assumes "(0x8000 \<le> addr \<and> addr \<le> 0xBFFF) \<or> (0xFE00 \<le> addr \<and> addr \<le> 0xFF7F) \<or>
           addr = 0xFFFF"
  shows "Read m addr = 0xFF \<and> Write m addr val = m \<and>
         (\<forall>a. Read (Write m addr val) a = Read m a)"
proof -
  have r: "Read m addr = 0xFF"
    using assms unfolding Read_def by (auto simp: word_le_nat_alt)
  have w: "Write m addr val = m"
    using assms unfolding Write_def by (auto simp: word_le_nat_alt)
  from r w show ?thesis by simp
qed

theorem unmapped_read_write_witness:
  "Read (Write NewBasicMemory 0xC000 0x2A) 0x9FFF = 0xFF \<and>
   Write (Write NewBasicMemory 0xC000 0x2A) 0x9FFF 0x17 = Write NewBasicMemory 0xC000 0x2A \<and>
   Read (Write (Write NewBasicMemory 0xC000 0x2A) 0x9FFF 0x17) 0xC000 = 0x2A"
proof -
  have h: "(0x8000 \<le> (0x9FFF :: uint16) \<and> (0x9FFF :: uint16) \<le> 0xBFFF) \<or>
           (0xFE00 \<le> (0x9FFF :: uint16) \<and> (0x9FFF :: uint16) \<le> 0xFF7F) \<or>
           (0x9FFF :: uint16) = 0xFFFF"
    by simp
  have rd: "Read (Write NewBasicMemory 0xC000 0x2A) 0xC000 = 0x2A"
    by (simp add: Read_def Write_def NewBasicMemory_def)
  from unmapped_read_write [OF h, of "Write NewBasicMemory 0xC000 0x2A" "0x17"] rd
  show ?thesis by simp
qed

section \<open>Loading a program\<close>

lemma copy_slice_nth_src:
  "length src \<le> length dst \<Longrightarrow> i < length src \<Longrightarrow> copy_slice dst src ! i = src ! i"
  by (simp add: copy_slice_def Let_def min_def nth_append)

lemma copy_slice_nth_dst:
  "length src \<le> length dst \<Longrightarrow> length src \<le> i \<Longrightarrow> i < length dst \<Longrightarrow>
     copy_slice dst src ! i = dst ! i"
  by (simp add: copy_slice_def Let_def min_def nth_append)

lemma Read_rom: "addr \<le> 0x7FFF \<Longrightarrow> Read m addr = rom m ! unat addr"
  by (simp add: Read_def)

lemma LoadROM_ok:
  "length data \<le> length (rom m) \<Longrightarrow>
     LoadROM m data = (None, m\<lparr>rom := copy_slice (rom m) data\<rparr>)"
  by (simp add: LoadROM_def)

lemma Read_setupCPU:
  assumes "length program \<le> 0x8000" and "addr \<le> 0x7FFF" and "unat addr < length program"
  shows "Read (Memory (setupCPU program)) addr = program ! unat addr"
proof -
  have "length program \<le> length (rom NewBasicMemory)"
    using assms(1) by (simp add: NewBasicMemory_def)
  then show ?thesis
    using assms(2,3)
    by (simp add: setupCPU_def NewCPU_def LoadROM_ok Read_rom copy_slice_nth_src)
qed

lemma Registers_setupCPU: "Registers (setupCPU program) = NewRegisters"
  by (simp add: setupCPU_def NewCPU_def)

lemma Halted_setupCPU: "\<not> Halted (setupCPU program)"
  by (simp add: setupCPU_def NewCPU_def)

section \<open>The dispatch table\<close>

lemma length_opcodeTable: "length opcodeTable = 256"
  by (simp add: opcodeTable_def del: upt_rec_numeral)

lemma opcodeTable_unknown:
  "i < 256 \<Longrightarrow> i \<notin> {0x00, 0x3E, 0x06, 0x0E, 0x78, 0x79, 0x80, 0xC3} \<Longrightarrow>
     opcodeTable ! i = unknownOpcode i"
  by (simp add: opcodeTable_def del: upt_rec_numeral)

lemma opcodeTable_00:
  "opcodeTable ! 0x00 = \<lparr>Mnemonic = ''NOP'', Bytes = 1, Cycles = 4, Execute = opNOP\<rparr>"
  by (simp add: opcodeTable_def del: upt_rec_numeral)

lemma opcodeTable_3E:
  "opcodeTable ! 0x3E = \<lparr>Mnemonic = ''LD A, n'', Bytes = 2, Cycles = 8, Execute = opLD_A_n\<rparr>"
  by (simp add: opcodeTable_def del: upt_rec_numeral)

lemma opcodeTable_06:
  "opcodeTable ! 0x06 = \<lparr>Mnemonic = ''LD B, n'', Bytes = 2, Cycles = 8, Execute = opLD_B_n\<rparr>"
  by (simp add: opcodeTable_def del: upt_rec_numeral)

lemma opcodeTable_0E:
  "opcodeTable ! 0x0E = \<lparr>Mnemonic = ''LD C, n'', Bytes = 2, Cycles = 8, Execute = opLD_C_n\<rparr>"
  by (simp add: opcodeTable_def del: upt_rec_numeral)

lemma opcodeTable_78:
  "opcodeTable ! 0x78 = \<lparr>Mnemonic = ''LD A, B'', Bytes = 1, Cycles = 4, Execute = opLD_A_B\<rparr>"
  by (simp add: opcodeTable_def del: upt_rec_numeral)

lemma opcodeTable_79:
  "opcodeTable ! 0x79 = \<lparr>Mnemonic = ''LD A, C'', Bytes = 1, Cycles = 4, Execute = opLD_A_C\<rparr>"
  by (simp add: opcodeTable_def del: upt_rec_numeral)

lemma opcodeTable_80:
  "opcodeTable ! 0x80 = \<lparr>Mnemonic = ''ADD A, B'', Bytes = 1, Cycles = 4, Execute = opADD_A_B\<rparr>"
  by (simp add: opcodeTable_def del: upt_rec_numeral)

lemma opcodeTable_C3:
  "opcodeTable ! 0xC3 = \<lparr>Mnemonic = ''JP nn'', Bytes = 3, Cycles = 16, Execute = opJP_nn\<rparr>"
  by (simp add: opcodeTable_def del: upt_rec_numeral)

lemma unat_opcode_less: "unat (opc :: uint8) < 256"
  using unsigned_less [of opc, where ?'a = nat] by simp

lemma unat_opcode_not_implemented:
  assumes "(opc :: uint8) \<notin> {0x00, 0x3E, 0x06, 0x0E, 0x78, 0x79, 0x80, 0xC3}"
  shows "unat opc \<notin> {0x00, 0x3E, 0x06, 0x0E, 0x78, 0x79, 0x80, 0xC3}"
proof -
  have eq: "opc = of_nat n" if "unat opc = n" for n
    using that by auto
  from eq [of "0x00"] eq [of "0x3E"] eq [of "0x06"] eq [of "0x0E"] eq [of "0x78"]
    eq [of "0x79"] eq [of "0x80"] eq [of "0xC3"] assms
  show ?thesis by auto
qed

text \<open>What one step does once the opcode byte at PC is known.\<close>

lemma Step_running:
  assumes "\<not> Halted cpu"
  shows "Step cpu =
    (let instruction = opcodeTable ! unat (Read (Memory cpu) (PC (Registers cpu)));
         cpu2 = Execute instruction
                  (cpu\<lparr>Registers := (Registers cpu)\<lparr>PC := PC (Registers cpu) + 1\<rparr>\<rparr>)
     in (Cycles instruction,
         cpu2\<lparr>TotalCycles := TotalCycles cpu2 + of_int (Cycles instruction)\<rparr>))"
  using assms by (simp add: Step_def fetchByte_def Let_def)

section \<open>The halted core\<close>

text \<open>
  Claim C9. For every core state in which \<^verbatim>\<open>Halted\<close> is true, \<^verbatim>\<open>Step\<close> returns 4
  and the state after the call is the state before it: registers, PC, flags, memory and
  the total-cycles counter are all the same.
\<close>

theorem halted_step_no_effect:
  assumes "Halted cpu"
  shows "Step cpu = (4, cpu)"
  using assms by (simp add: Step_def)

theorem halted_step_no_effect_witness:
  "Halted ((setupCPU [0x3E, 0x05])\<lparr>Halted := True\<rparr>) \<and>
   Step ((setupCPU [0x3E, 0x05])\<lparr>Halted := True\<rparr>) =
     (4, (setupCPU [0x3E, 0x05])\<lparr>Halted := True\<rparr>)"
proof -
  have h: "Halted ((setupCPU [0x3E, 0x05])\<lparr>Halted := True\<rparr>)" by simp
  from halted_step_no_effect [OF h] h show ?thesis by simp
qed

section \<open>Unassigned opcodes\<close>

text \<open>
  Claim C2. For every core that is not halted and whose byte at PC is none of
  \<open>0x00, 0x3E, 0x06, 0x0E, 0x78, 0x79, 0x80, 0xC3\<close>: \<^verbatim>\<open>Step\<close> returns 4; the register
  file after the step is the register file before it with PC replaced by PC + 1 (a
  \<^verbatim>\<open>uint16\<close> increment, so \<open>0xFFFF\<close> is followed by \<open>0x0000\<close>), hence A, F, B, C, D, E,
  H, L, SP and the four flags are unchanged; the memory and the halted state are unchanged.
  The total-cycles counter, which the claim does not mention, grows by 4.
\<close>

theorem unassigned_opcode_step:
  assumes "\<not> Halted cpu"
    and "Read (Memory cpu) (PC (Registers cpu)) \<notin> {0x00, 0x3E, 0x06, 0x0E, 0x78, 0x79, 0x80, 0xC3}"
  shows "fst (Step cpu) = 4 \<and>
         Registers (snd (Step cpu)) = (Registers cpu)\<lparr>PC := PC (Registers cpu) + 1\<rparr> \<and>
         Memory (snd (Step cpu)) = Memory cpu \<and>
         Halted (snd (Step cpu)) = Halted cpu \<and>
         TotalCycles (snd (Step cpu)) = TotalCycles cpu + 4"
proof -
  let ?opc = "Read (Memory cpu) (PC (Registers cpu))"
  have "opcodeTable ! unat ?opc = unknownOpcode (unat ?opc)"
    using unat_opcode_less unat_opcode_not_implemented [OF assms(2)]
    by (rule opcodeTable_unknown)
  then show ?thesis
    using assms(1) by (simp add: Step_running unknownOpcode_def opUnknown_def)
qed

theorem unassigned_opcode_step_witness:
  "\<not> Halted (setupCPU [0xD3]) \<and>
   Read (Memory (setupCPU [0xD3])) (PC (Registers (setupCPU [0xD3]))) = 0xD3 \<and>
   fst (Step (setupCPU [0xD3])) = 4 \<and>
   Registers (snd (Step (setupCPU [0xD3]))) = NewRegisters\<lparr>PC := 0x0001\<rparr> \<and>
   Memory (snd (Step (setupCPU [0xD3]))) = Memory (setupCPU [0xD3]) \<and>
   TotalCycles (snd (Step (setupCPU [0xD3]))) = 4"
proof -
  have pc: "PC (Registers (setupCPU [0xD3])) = 0"
    by (simp add: Registers_setupCPU NewRegisters_def)
  have rd: "Read (Memory (setupCPU [0xD3])) (PC (Registers (setupCPU [0xD3]))) = 0xD3"
    unfolding pc by (subst Read_setupCPU) simp_all
  have h: "Read (Memory (setupCPU [0xD3])) (PC (Registers (setupCPU [0xD3])))
             \<notin> {0x00, 0x3E, 0x06, 0x0E, 0x78, 0x79, 0x80, 0xC3}"
    unfolding rd by simp
  have tc: "TotalCycles (setupCPU [0xD3]) = 0"
    by (simp add: setupCPU_def NewCPU_def)
  from unassigned_opcode_step [OF Halted_setupCPU h] rd
  show ?thesis
    by (simp add: Halted_setupCPU Registers_setupCPU NewRegisters_def tc)
qed

section \<open>Bytes, words and flags\<close>

lemma unat_ucast_byte: "unat (ucast (b :: uint8) :: uint16) = unat b"
proof -
  have "unat b < 2 ^ 16" using unsigned_less [of b, where ?'a = nat] by simp
  then show ?thesis by (simp add: unsigned_ucast_eq take_bit_nat_eq_self)
qed

lemma unat_join_bytes:
  "unat (push_bit 8 (ucast (hi :: uint8)) OR ucast (lo :: uint8) :: uint16) = 256 * unat hi + unat lo"
proof -
  have d: "push_bit 8 (ucast hi) OR (ucast lo :: uint16) = push_bit 8 (ucast hi) + ucast lo"
    by (rule disjunctive_add [symmetric]) (auto simp add: bit_simps dest: bit_imp_le_length)
  have hi: "unat hi < 256" using unsigned_less [of hi, where ?'a = nat] by simp
  have lo: "unat lo < 256" using unsigned_less [of lo, where ?'a = nat] by simp
  have p: "unat (push_bit 8 (ucast hi :: uint16)) = 256 * unat hi"
    using hi by (simp add: push_bit_eq_mult unat_word_ariths unat_ucast_byte)
  show ?thesis
    unfolding d using hi lo by (simp add: unat_word_ariths p unat_ucast_byte)
qed

lemma GetFlag_SetFlag_same: "flag \<noteq> 0 \<Longrightarrow> GetFlag (SetFlag r flag v) flag = v"
proof -
  have "(F r AND NOT flag) AND flag = 0"
    by (rule bit_word_eqI) (auto simp add: bit_simps)
  moreover have "(F r OR flag) AND flag = flag"
    by (rule bit_word_eqI) (auto simp add: bit_simps)
  ultimately show "flag \<noteq> 0 \<Longrightarrow> GetFlag (SetFlag r flag v) flag = v"
    by (simp add: GetFlag_def SetFlag_def)
qed

lemma GetFlag_SetFlag_other:
  assumes "flag AND flag' = 0"
  shows "GetFlag (SetFlag r flag v) flag' = GetFlag r flag'"
proof -
  have nb: "\<not> (bit flag n \<and> bit flag' n)" for n
    using arg_cong [OF assms, of "\<lambda>w. bit w n"] by (simp add: bit_and_iff)
  have 1: "(F r OR flag) AND flag' = F r AND flag'"
    by (rule bit_word_eqI) (use nb in \<open>auto simp add: bit_simps\<close>)
  have 2: "(F r AND NOT flag) AND flag' = F r AND flag'"
    by (rule bit_word_eqI) (use nb in \<open>auto simp add: bit_simps\<close>)
  show ?thesis by (simp add: GetFlag_def SetFlag_def 1 2)
qed

lemma half_carry_nat:
  "((a :: uint8) AND 0x0F) + (b AND 0x0F) > 0x0F \<longleftrightarrow> unat (a AND 0x0F) + unat (b AND 0x0F) > 15"
proof -
  have a: "unat (a AND 0x0F) \<le> 15"
    using word_and_le1 [of a "0x0F"] by (simp add: word_le_nat_alt)
  have b: "unat (b AND 0x0F) \<le> 15"
    using word_and_le1 [of b "0x0F"] by (simp add: word_le_nat_alt)
  from a b show ?thesis
    by (simp add: word_less_nat_alt unat_word_ariths)
qed

lemma carry_nat:
  "(ucast (a :: uint8) :: uint16) + ucast (b :: uint8) > 0xFF \<longleftrightarrow> unat a + unat b > 255"
proof -
  have a: "unat a < 256" using unsigned_less [of a, where ?'a = nat] by simp
  have b: "unat b < 256" using unsigned_less [of b, where ?'a = nat] by simp
  from a b show ?thesis
    by (simp add: word_less_nat_alt unat_word_ariths unat_ucast_byte)
qed

lemma zero_nat: "(a :: uint8) + b = 0 \<longleftrightarrow> (unat a + unat b) mod 256 = 0"
  by (simp add: unat_eq_zero [symmetric] unat_word_ariths)

lemma flags_disjoint:
  "FlagZ AND FlagN = 0" "FlagZ AND FlagH = 0" "FlagZ AND FlagC = 0"
  "FlagN AND FlagZ = 0" "FlagN AND FlagH = 0" "FlagN AND FlagC = 0"
  "FlagH AND FlagZ = 0" "FlagH AND FlagN = 0" "FlagH AND FlagC = 0"
  "FlagC AND FlagZ = 0" "FlagC AND FlagN = 0" "FlagC AND FlagH = 0"
  by (simp_all add: FlagZ_def FlagN_def FlagH_def FlagC_def)

lemma flags_nonzero: "FlagZ \<noteq> 0" "FlagN \<noteq> 0" "FlagH \<noteq> 0" "FlagC \<noteq> 0"
  by (simp_all add: FlagZ_def FlagN_def FlagH_def FlagC_def)

lemma GetFlag_A_update: "GetFlag (r\<lparr>A := x\<rparr>) flag = GetFlag r flag"
  by (simp add: GetFlag_def)

text \<open>The register file that \<^verbatim>\<open>opADD_A_B\<close> leaves, and the flags read from it.\<close>

lemma Registers_opADD_A_B:
  "Registers (opADD_A_B cpu) =
     (SetFlagC (SetFlagH (SetFlagN (SetFlagZ (Registers cpu)
         (A (Registers cpu) + B (Registers cpu) = 0)) False)
         ((A (Registers cpu) AND 0x0F) + (B (Registers cpu) AND 0x0F) > 0x0F))
         ((ucast (A (Registers cpu)) :: uint16) + ucast (B (Registers cpu)) > 0xFF))
       \<lparr>A := A (Registers cpu) + B (Registers cpu)\<rparr>"
  by (simp add: opADD_A_B_def Let_def)

lemma flags_after_setters:
  "GetFlagZ ((SetFlagC (SetFlagH (SetFlagN (SetFlagZ r z) n) h) c)\<lparr>A := x\<rparr>) = z"
  "GetFlagN ((SetFlagC (SetFlagH (SetFlagN (SetFlagZ r z) n) h) c)\<lparr>A := x\<rparr>) = n"
  "GetFlagH ((SetFlagC (SetFlagH (SetFlagN (SetFlagZ r z) n) h) c)\<lparr>A := x\<rparr>) = h"
  "GetFlagC ((SetFlagC (SetFlagH (SetFlagN (SetFlagZ r z) n) h) c)\<lparr>A := x\<rparr>) = c"
  by (simp_all add: GetFlagZ_def GetFlagN_def GetFlagH_def GetFlagC_def
        SetFlagZ_def SetFlagN_def SetFlagH_def SetFlagC_def GetFlag_A_update
        GetFlag_SetFlag_same GetFlag_SetFlag_other flags_disjoint flags_nonzero)

lemma A_after_setters:
  "A ((SetFlagC (SetFlagH (SetFlagN (SetFlagZ r z) n) h) c)\<lparr>A := x\<rparr>) = x"
  by simp

section \<open>ADD A,B\<close>

text \<open>
  Claim C1. For every core that is not halted and whose byte at PC is \<open>0x80\<close>, with
  \<open>a\<close> the value of A and \<open>b\<close> the value of B before the step (any two bytes, any prior
  F): after \<^verbatim>\<open>Step\<close>, A holds \<open>(a + b) mod 256\<close>, Z is set exactly when
  \<open>(a + b) mod 256 = 0\<close>, N is clear, H is set exactly when
  \<open>(a AND 0x0F) + (b AND 0x0F) > 0x0F\<close>, and C is set exactly when \<open>a + b > 255\<close>, the
  sums being sums of natural numbers.
\<close>

theorem add_a_b_result_and_flags:
  assumes "\<not> Halted cpu" and "Read (Memory cpu) (PC (Registers cpu)) = 0x80"
  shows "unat (A (Registers (snd (Step cpu))))
           = (unat (A (Registers cpu)) + unat (B (Registers cpu))) mod 256 \<and>
         (GetFlagZ (Registers (snd (Step cpu))) \<longleftrightarrow>
            (unat (A (Registers cpu)) + unat (B (Registers cpu))) mod 256 = 0) \<and>
         \<not> GetFlagN (Registers (snd (Step cpu))) \<and>
         (GetFlagH (Registers (snd (Step cpu))) \<longleftrightarrow>
            unat (A (Registers cpu) AND 0x0F) + unat (B (Registers cpu) AND 0x0F) > 0x0F) \<and>
         (GetFlagC (Registers (snd (Step cpu))) \<longleftrightarrow>
            unat (A (Registers cpu)) + unat (B (Registers cpu)) > 255)"
proof -
  let ?cpu1 = "cpu\<lparr>Registers := (Registers cpu)\<lparr>PC := PC (Registers cpu) + 1\<rparr>\<rparr>"
  have st: "Registers (snd (Step cpu)) = Registers (opADD_A_B ?cpu1)"
    using assms by (simp add: Step_running opcodeTable_80 Let_def)
  have ab: "A (Registers ?cpu1) = A (Registers cpu)" "B (Registers ?cpu1) = B (Registers cpu)"
    by simp_all
  show ?thesis
    unfolding st Registers_opADD_A_B ab flags_after_setters A_after_setters
    by (simp add: zero_nat half_carry_nat carry_nat unat_word_ariths)
qed

theorem add_a_b_result_and_flags_witness:
  "\<not> Halted ((setupCPU [0x80])\<lparr>Registers := NewRegisters\<lparr>A := 0xFF, B := 0x01, F := 0x40\<rparr>\<rparr>) \<and>
   unat (A (Registers (snd (Step
     ((setupCPU [0x80])\<lparr>Registers := NewRegisters\<lparr>A := 0xFF, B := 0x01, F := 0x40\<rparr>\<rparr>))))) = 0 \<and>
   GetFlagZ (Registers (snd (Step
     ((setupCPU [0x80])\<lparr>Registers := NewRegisters\<lparr>A := 0xFF, B := 0x01, F := 0x40\<rparr>\<rparr>)))) \<and>
   \<not> GetFlagN (Registers (snd (Step
     ((setupCPU [0x80])\<lparr>Registers := NewRegisters\<lparr>A := 0xFF, B := 0x01, F := 0x40\<rparr>\<rparr>)))) \<and>
   GetFlagH (Registers (snd (Step
     ((setupCPU [0x80])\<lparr>Registers := NewRegisters\<lparr>A := 0xFF, B := 0x01, F := 0x40\<rparr>\<rparr>)))) \<and>
   GetFlagC (Registers (snd (Step
     ((setupCPU [0x80])\<lparr>Registers := NewRegisters\<lparr>A := 0xFF, B := 0x01, F := 0x40\<rparr>\<rparr>))))"
proof -
  let ?cpu = "(setupCPU [0x80])\<lparr>Registers := NewRegisters\<lparr>A := 0xFF, B := 0x01, F := 0x40\<rparr>\<rparr>"
  have h: "\<not> Halted ?cpu" by (simp add: Halted_setupCPU)
  have "Read (Memory (setupCPU [0x80])) 0 = 0x80"
    by (subst Read_setupCPU) simp_all
  then have rd: "Read (Memory ?cpu) (PC (Registers ?cpu)) = 0x80"
    by (simp add: NewRegisters_def)
  from add_a_b_result_and_flags [OF h rd] h show ?thesis
    by (simp add: NewRegisters_def)
qed

section \<open>JP nn\<close>

text \<open>
  Claim C8. For every core that is not halted and whose byte at PC is \<open>0xC3\<close>, with
  \<open>lo\<close> the byte at PC + 1 and \<open>hi\<close> the byte at PC + 2: \<^verbatim>\<open>Step\<close> returns 16; the
  register file after the step is the one before it with PC replaced by the 16-bit value
  \<open>256 * hi + lo\<close>, so A, F, B, C, D, E, H, L, SP and the flags are unchanged; the memory
  is unchanged. In particular, on a fresh core over a fresh memory loaded with
  \<open>[0xC3, 0x50, 0x01]\<close>, one step returns 16 and leaves PC at \<open>0x0150\<close>.
\<close>

theorem jp_nn_step:
  assumes "\<not> Halted cpu" and "Read (Memory cpu) (PC (Registers cpu)) = 0xC3"
  shows "fst (Step cpu) = 16 \<and>
         Registers (snd (Step cpu)) =
           (Registers cpu)\<lparr>PC := push_bit 8 (ucast (Read (Memory cpu) (PC (Registers cpu) + 2)))
                                  OR ucast (Read (Memory cpu) (PC (Registers cpu) + 1))\<rparr> \<and>
         unat (PC (Registers (snd (Step cpu)))) =
           256 * unat (Read (Memory cpu) (PC (Registers cpu) + 2))
             + unat (Read (Memory cpu) (PC (Registers cpu) + 1)) \<and>
         Memory (snd (Step cpu)) = Memory cpu \<and>
         fst (Step (setupCPU [0xC3, 0x50, 0x01])) = 16 \<and>
         PC (Registers (snd (Step (setupCPU [0xC3, 0x50, 0x01])))) = 0x0150"
proof -
  have gen: "fst (Step c) = 16 \<and>
         Registers (snd (Step c)) =
           (Registers c)\<lparr>PC := push_bit 8 (ucast (Read (Memory c) (PC (Registers c) + 2)))
                                  OR ucast (Read (Memory c) (PC (Registers c) + 1))\<rparr> \<and>
         Memory (snd (Step c)) = Memory c"
    if "\<not> Halted c" and "Read (Memory c) (PC (Registers c)) = 0xC3" for c
    using that
    by (simp add: Step_running opcodeTable_C3 opJP_nn_def fetchWord_def fetchByte_def Let_def
          add.commute [of "2 :: uint16"])
  let ?s = "setupCPU [0xC3, 0x50, 0x01]"
  have pc: "PC (Registers ?s) = 0"
    by (simp add: Registers_setupCPU NewRegisters_def)
  have r0: "Read (Memory ?s) 0 = 0xC3" by (subst Read_setupCPU) simp_all
  have r1: "Read (Memory ?s) 1 = 0x50" by (subst Read_setupCPU) simp_all
  have r2: "Read (Memory ?s) 2 = 0x01" by (subst Read_setupCPU) simp_all
  have sc: "fst (Step ?s) = 16 \<and> PC (Registers (snd (Step ?s))) = 0x0150"
    using gen [of ?s] by (simp add: Halted_setupCPU pc r0 r1 r2)
  from gen [OF assms] sc show ?thesis
    by (simp add: unat_join_bytes)
qed

theorem jp_nn_step_witness:
  "\<not> Halted ((setupCPU [0x00, 0xC3, 0x34, 0x12])\<lparr>Registers := NewRegisters\<lparr>PC := 1\<rparr>\<rparr>) \<and>
   Read (Memory (setupCPU [0x00, 0xC3, 0x34, 0x12])) 1 = 0xC3 \<and>
   fst (Step ((setupCPU [0x00, 0xC3, 0x34, 0x12])\<lparr>Registers := NewRegisters\<lparr>PC := 1\<rparr>\<rparr>)) = 16 \<and>
   Registers (snd (Step ((setupCPU [0x00, 0xC3, 0x34, 0x12])\<lparr>Registers := NewRegisters\<lparr>PC := 1\<rparr>\<rparr>)))
     = NewRegisters\<lparr>PC := 0x1234\<rparr>"
proof -
  let ?s = "setupCPU [0x00, 0xC3, 0x34, 0x12]"
  let ?cpu = "?s\<lparr>Registers := NewRegisters\<lparr>PC := 1\<rparr>\<rparr>"
  have h: "\<not> Halted ?cpu" by (simp add: Halted_setupCPU)
  have r1: "Read (Memory ?s) 1 = 0xC3" by (subst Read_setupCPU) simp_all
  have r2: "Read (Memory ?s) 2 = 0x34" by (subst Read_setupCPU) simp_all
  have r3: "Read (Memory ?s) 3 = 0x12" by (subst Read_setupCPU) simp_all
  have rd: "Read (Memory ?cpu) (PC (Registers ?cpu)) = 0xC3"
    using r1 by simp
  from jp_nn_step [OF h rd] h r1 r2 r3 show ?thesis
    by simp
qed

section \<open>Working memory and its mirror\<close>

lemma unat_base_plus_offset:
  assumes "(k :: uint16) < 0x1E00"
  shows "unat k < 7680" and "unat (0xC000 + k) = 49152 + unat k"
    and "unat (0xE000 + k) = 57344 + unat k"
proof -
  show k: "unat k < 7680" using assms by (simp add: word_less_nat_alt)
  then show "unat (0xC000 + k) = 49152 + unat k" by (simp add: unat_word_ariths)
  from k show "unat (0xE000 + k) = 57344 + unat k" by (simp add: unat_word_ariths)
qed

lemma Read_working_memory:
  assumes "(k :: uint16) < 0x1E00"
  shows "Read m (0xC000 + k) = wram m ! unat k" and "Read m (0xE000 + k) = wram m ! unat k"
  using unat_base_plus_offset [OF assms] by (simp_all add: Read_def word_le_nat_alt)

lemma Write_working_memory:
  assumes "(k :: uint16) < 0x1E00"
  shows "Write m (0xC000 + k) x = m\<lparr>wram := (wram m)[unat k := x]\<rparr>"
    and "Write m (0xE000 + k) x = m\<lparr>wram := (wram m)[unat k := x]\<rparr>"
  using unat_base_plus_offset [OF assms] by (simp_all add: Write_def word_le_nat_alt)

text \<open>
  Claim C3, as amended. For every memory state with the array lengths of the source,
  every offset \<open>k\<close> with \<open>0 \<le> k < 0x1E00\<close> (that is, \<open>k\<close> in \<open>0..0x1DFF\<close>) and every byte
  \<open>x\<close>: writing \<open>x\<close> at \<open>0xC000 + k\<close> and then reading \<open>0xE000 + k\<close> yields \<open>x\<close>, and
  writing \<open>x\<close> at \<open>0xE000 + k\<close> and then reading \<open>0xC000 + k\<close> yields \<open>x\<close>.
\<close>

theorem mirror_aliases_working_memory:
  assumes "array_sizes m" and "(k :: uint16) < 0x1E00"
  shows "Read (Write m (0xC000 + k) x) (0xE000 + k) = x \<and>
         Read (Write m (0xE000 + k) x) (0xC000 + k) = x"
proof -
  have "unat k < length (wram m)"
    using assms(1) unat_base_plus_offset(1) [OF assms(2)] by (simp add: array_sizes_def)
  then show ?thesis
    by (simp add: Read_working_memory [OF assms(2)] Write_working_memory [OF assms(2)])
qed

theorem mirror_aliases_working_memory_witness:
  "array_sizes NewBasicMemory \<and> (0x1DFF :: uint16) < 0x1E00 \<and>
   Read (Write NewBasicMemory (0xC000 + 0x1DFF) 0x55) (0xE000 + 0x1DFF) = 0x55 \<and>
   Read (Write NewBasicMemory (0xE000 + 0x1DFF) 0x66) (0xC000 + 0x1DFF) = 0x66"
proof -
  have k: "(0x1DFF :: uint16) < 0x1E00" by simp
  from mirror_aliases_working_memory [OF array_sizes_New k, of "0x55"]
    mirror_aliases_working_memory [OF array_sizes_New k, of "0x66"] array_sizes_New k
  show ?thesis by blast
qed

text \<open>
  Claim C3 as stated, with the range \<open>0..0x1E00\<close> read as including its upper end (as
  \<open>0..255\<close> does for bytes), fails at \<open>k = 0x1E00\<close>: \<open>0xE000 + 0x1E00 = 0xFE00\<close> is past
  the mirror window \<open>0xE000\<close>--\<open>0xFDFF\<close> and unmapped, so a byte written at \<open>0xDE00\<close> is
  not read back there, and a byte written there does not reach \<open>0xDE00\<close>.
\<close>

theorem mirror_fails_at_offset_1E00:
  "Read (Write NewBasicMemory (0xC000 + 0x1E00) 0x55) (0xE000 + 0x1E00) \<noteq> 0x55 \<and>
   Read (Write NewBasicMemory (0xE000 + 0x1E00) 0x66) (0xC000 + 0x1E00) \<noteq> 0x66"
  by (simp add: Read_def Write_def NewBasicMemory_def)

section \<open>LoadROM\<close>

lemma take_copy_slice:
  "length src \<le> length dst \<Longrightarrow> take (length src) (copy_slice dst src) = src"
  by (simp add: copy_slice_def Let_def min_def)

lemma unat_of_nat_rom_index: "i < 32768 \<Longrightarrow> unat (of_nat i :: uint16) = i"
  by (simp add: unat_of_nat take_bit_nat_eq_self)

lemma of_nat_rom_address: "i < 32768 \<Longrightarrow> (of_nat i :: uint16) \<le> 0x7FFF"
  by (simp add: word_le_nat_alt unat_of_nat_rom_index)

text \<open>
  Claim C7. For every memory state with the array lengths of the source and every input:
  \<^verbatim>\<open>LoadROM\<close> returns an error exactly when the input is longer than 32768 bytes; in
  that case the state after the call is the state before it, and a following load of any
  input of at most 32768 bytes returns no error; when the input has at most 32768 bytes,
  the first bytes of ROM after the call are the input, and reading address \<open>i\<close> yields
  byte \<open>i\<close> of the input.
\<close>

theorem LoadROM_error_iff_too_long:
  assumes "array_sizes m"
  shows "(fst (LoadROM m data) \<noteq> None \<longleftrightarrow> length data > 32768) \<and>
         (length data > 32768 \<longrightarrow>
            snd (LoadROM m data) = m \<and>
            (\<forall>d. length d \<le> 32768 \<longrightarrow> fst (LoadROM (snd (LoadROM m data)) d) = None)) \<and>
         (length data \<le> 32768 \<longrightarrow>
            take (length data) (rom (snd (LoadROM m data))) = data \<and>
            (\<forall>i < length data. Read (snd (LoadROM m data)) (of_nat i) = data ! i))"
proof -
  have len: "length (rom m) = 32768"
    using assms by (simp add: array_sizes_def)
  have 1: "fst (LoadROM m data) \<noteq> None \<longleftrightarrow> length data > 32768"
    by (simp add: LoadROM_def len)
  have 2: "snd (LoadROM m data) = m \<and>
           (\<forall>d. length d \<le> 32768 \<longrightarrow> fst (LoadROM (snd (LoadROM m data)) d) = None)"
    if "length data > 32768"
    using that by (simp add: LoadROM_def len)
  have 3: "take (length data) (rom (snd (LoadROM m data))) = data \<and>
           (\<forall>i < length data. Read (snd (LoadROM m data)) (of_nat i) = data ! i)"
    if le: "length data \<le> 32768"
  proof -
    have le': "length data \<le> length (rom m)" using le len by simp
    have "Read (snd (LoadROM m data)) (of_nat i) = data ! i" if "i < length data" for i
    proof -
      have i: "i < 32768" using that le by simp
      show ?thesis
        using that
        by (simp add: LoadROM_ok [OF le'] Read_rom [OF of_nat_rom_address [OF i]]
              unat_of_nat_rom_index [OF i] copy_slice_nth_src [OF le'])
    qed
    then show ?thesis
      by (simp add: LoadROM_ok [OF le'] take_copy_slice [OF le'])
  qed
  from 1 2 3 show ?thesis by blast
qed

theorem LoadROM_error_iff_too_long_witness:
  "array_sizes NewBasicMemory \<and>
   fst (LoadROM NewBasicMemory (replicate 32769 0xFF)) \<noteq> None \<and>
   snd (LoadROM NewBasicMemory (replicate 32769 0xFF)) = NewBasicMemory \<and>
   fst (LoadROM (snd (LoadROM NewBasicMemory (replicate 32769 0xFF))) [0x00, 0x3E, 0x42, 0xC3])
     = None \<and>
   fst (LoadROM NewBasicMemory [0x00, 0x3E, 0x42, 0xC3]) = None \<and>
   Read (snd (LoadROM NewBasicMemory [0x00, 0x3E, 0x42, 0xC3])) 0x0002 = 0x42"
proof -
  let ?big = "replicate 32769 (0xFF :: uint8)"
  let ?prog = "[0x00, 0x3E, 0x42, 0xC3 :: uint8]"
  have big: "length ?big > 32768" by simp
  have prog: "length ?prog \<le> 32768" by simp
  note e = LoadROM_error_iff_too_long [OF array_sizes_New, of ?big]
  note s = LoadROM_error_iff_too_long [OF array_sizes_New, of ?prog]
  from e big have e1: "fst (LoadROM NewBasicMemory ?big) \<noteq> None" by blast
  from e big have e2: "snd (LoadROM NewBasicMemory ?big) = NewBasicMemory" by blast
  from e big prog
  have e3: "fst (LoadROM (snd (LoadROM NewBasicMemory ?big)) ?prog) = None" by blast
  from s prog have s1: "fst (LoadROM NewBasicMemory ?prog) = None" by auto
  from s prog
  have "\<forall>i < length ?prog. Read (snd (LoadROM NewBasicMemory ?prog)) (of_nat i) = ?prog ! i"
    by blast
  from this [rule_format, of 2]
  have s2: "Read (snd (LoadROM NewBasicMemory ?prog)) 0x0002 = 0x42" by simp
  from array_sizes_New e1 e2 e3 s1 s2 show ?thesis by blast
qed

text \<open>
  Claim C10. For every memory state with the array lengths of the source and every input
  of at most 32768 bytes: \<^verbatim>\<open>LoadROM\<close> returns no error; ROM index \<open>i\<close> holds byte \<open>i\<close>
  of the input for \<open>i\<close> below the input length; ROM indices from the input length up to
  32767 hold what they held before; working memory and scratch memory are unchanged.
  Loading the empty input returns no error and the unchanged state.
\<close>

theorem LoadROM_frame:
  assumes "array_sizes m" and "length data \<le> 32768"
  shows "fst (LoadROM m data) = None \<and>
         (\<forall>i < length data. rom (snd (LoadROM m data)) ! i = data ! i) \<and>
         (\<forall>i. length data \<le> i \<and> i < 32768 \<longrightarrow>
               rom (snd (LoadROM m data)) ! i = rom m ! i) \<and>
         length (rom (snd (LoadROM m data))) = 32768 \<and>
         wram (snd (LoadROM m data)) = wram m \<and>
         hram (snd (LoadROM m data)) = hram m \<and>
         LoadROM m [] = (None, m)"
proof -
  have len: "length (rom m) = 32768"
    using assms(1) by (simp add: array_sizes_def)
  have le: "length data \<le> length (rom m)" using assms(2) len by simp
  have e: "LoadROM m [] = (None, m)"
    by (simp add: LoadROM_def copy_slice_def)
  show ?thesis
    by (simp add: LoadROM_ok [OF le] copy_slice_nth_src [OF le] copy_slice_nth_dst [OF le]
          length_copy_slice [OF le] len e)
qed

theorem LoadROM_frame_witness:
  "array_sizes (Write (Write NewBasicMemory 0x0003 0x99) 0xC000 0x77) \<and>
   fst (LoadROM (Write (Write NewBasicMemory 0x0003 0x99) 0xC000 0x77) [0x3E, 0x05]) = None \<and>
   rom (snd (LoadROM (Write (Write NewBasicMemory 0x0003 0x99) 0xC000 0x77) [0x3E, 0x05])) ! 1
     = 0x05 \<and>
   rom (snd (LoadROM (Write (Write NewBasicMemory 0x0003 0x99) 0xC000 0x77) [0x3E, 0x05])) ! 3
     = 0x99 \<and>
   wram (snd (LoadROM (Write (Write NewBasicMemory 0x0003 0x99) 0xC000 0x77) [0x3E, 0x05])) ! 0
     = 0x77"
proof -
  let ?m = "Write (Write NewBasicMemory 0x0003 0x99) 0xC000 0x77"
  let ?prog = "[0x3E, 0x05 :: uint8]"
  have wf: "array_sizes ?m"
    by (intro array_sizes_Write array_sizes_New)
  have le: "length ?prog \<le> 32768" by simp
  have r3: "rom ?m ! 3 = 0x99"
    by (simp add: Write_def NewBasicMemory_def)
  have w0: "wram ?m ! 0 = 0x77"
    by (simp add: Write_def NewBasicMemory_def)
  note f = LoadROM_frame [OF wf le]
  from f have 1: "fst (LoadROM ?m ?prog) = None" by blast
  from f have "\<forall>i < length ?prog. rom (snd (LoadROM ?m ?prog)) ! i = ?prog ! i" by blast
  from this [rule_format, of 1] have 2: "rom (snd (LoadROM ?m ?prog)) ! 1 = 0x05" by simp
  from f have "\<forall>i. length ?prog \<le> i \<and> i < 32768 \<longrightarrow>
                 rom (snd (LoadROM ?m ?prog)) ! i = rom ?m ! i" by blast
  from this [rule_format, of 3] r3 have 3: "rom (snd (LoadROM ?m ?prog)) ! 3 = 0x99" by simp
  from f w0 have 4: "wram (snd (LoadROM ?m ?prog)) ! 0 = 0x77" by simp
  from wf 1 2 3 4 show ?thesis by blast
qed

section \<open>The low nibble of F\<close>

lemma or_keeps_clear:
  assumes "f AND msk = 0" and "flag AND msk = 0"
  shows "(f OR flag) AND msk = (0 :: uint8)"
  using assms by (simp add: bit.conj_disj_distrib2)

lemma and_not_keeps_clear:
  assumes "f AND msk = 0"
  shows "(f AND NOT flag) AND msk = (0 :: uint8)"
proof -
  have "(f AND NOT flag) AND msk = (f AND msk) AND NOT flag"
    by (simp add: ac_simps)
  then show ?thesis using assms by simp
qed

lemma SetFlag_low_nibble:
  "F r AND 0x0F = 0 \<Longrightarrow> flag AND 0x0F = 0 \<Longrightarrow> F (SetFlag r flag b) AND 0x0F = 0"
  by (simp add: SetFlag_def or_keeps_clear and_not_keeps_clear)

lemma flag_constants_high_nibble:
  "FlagZ AND 0x0F = 0" "FlagN AND 0x0F = 0" "FlagH AND 0x0F = 0" "FlagC AND 0x0F = 0"
  by (simp_all add: FlagZ_def FlagN_def FlagH_def FlagC_def)

lemma SetFlagZNHC_low_nibble:
  assumes "F r AND 0x0F = 0"
  shows "F (SetFlagZ r b) AND 0x0F = 0" and "F (SetFlagN r b) AND 0x0F = 0"
    and "F (SetFlagH r b) AND 0x0F = 0" and "F (SetFlagC r b) AND 0x0F = 0"
  using assms
  by (simp_all add: SetFlagZ_def SetFlagN_def SetFlagH_def SetFlagC_def SetFlag_low_nibble
        flag_constants_high_nibble)

lemma SetAF_low_nibble: "F (SetAF r v) AND 0x0F = 0"
proof -
  have "(w AND 0xF0) AND 0x0F = 0" for w :: uint8
    by (simp add: and.assoc)
  then show ?thesis by (simp add: SetAF_def)
qed

lemma SetFlags_low_nibble: "F (SetFlags r z n h c) AND 0x0F = 0"
proof -
  have "F (SetFlags r z n h c) =
          (if z then FlagZ else 0) OR (if n then FlagN else 0) OR (if h then FlagH else 0)
            OR (if c then FlagC else 0)"
    by (simp add: SetFlags_def Let_def ac_simps)
  then show ?thesis
    by (simp add: FlagZ_def FlagN_def FlagH_def FlagC_def)
qed

text \<open>Of the handlers only \<^verbatim>\<open>opADD_A_B\<close> writes F, through the four flag setters.\<close>

lemma F_handlers_unchanged:
  "F (Registers (opUnknown cpu)) = F (Registers cpu)"
  "F (Registers (opNOP cpu)) = F (Registers cpu)"
  "F (Registers (opLD_A_n cpu)) = F (Registers cpu)"
  "F (Registers (opLD_B_n cpu)) = F (Registers cpu)"
  "F (Registers (opLD_C_n cpu)) = F (Registers cpu)"
  "F (Registers (opLD_A_B cpu)) = F (Registers cpu)"
  "F (Registers (opLD_A_C cpu)) = F (Registers cpu)"
  "F (Registers (opJP_nn cpu)) = F (Registers cpu)"
  by (simp_all add: opUnknown_def opNOP_def opLD_A_n_def opLD_B_n_def opLD_C_n_def
        opLD_A_B_def opLD_A_C_def opJP_nn_def fetchWord_def fetchByte_def Let_def)

lemma opADD_A_B_low_nibble:
  assumes "F (Registers cpu) AND 0x0F = 0"
  shows "F (Registers (opADD_A_B cpu)) AND 0x0F = 0"
proof -
  have "F (r\<lparr>A := x\<rparr>) = F r" for r :: Registers and x
    by simp
  then show ?thesis
    unfolding Registers_opADD_A_B
    by (simp add: SetFlagZNHC_low_nibble assms)
qed

lemma table_entry_cases:
  assumes "i < 256"
  obtains "i = 0x00" | "i = 0x3E" | "i = 0x06" | "i = 0x0E" | "i = 0x78" | "i = 0x79"
    | "i = 0x80" | "i = 0xC3" | "opcodeTable ! i = unknownOpcode i"
  using assms opcodeTable_unknown [of i] by auto

lemma Execute_low_nibble:
  assumes "F (Registers cpu) AND 0x0F = 0" and "i < 256"
  shows "F (Registers (Execute (opcodeTable ! i) cpu)) AND 0x0F = 0"
  using assms(2)
proof (cases i rule: table_entry_cases)
  case 7
  then show ?thesis by (simp add: opcodeTable_80 opADD_A_B_low_nibble assms(1))
next
  case 9
  then show ?thesis by (simp add: unknownOpcode_def F_handlers_unchanged assms(1))
qed (simp_all add: opcodeTable_00 opcodeTable_3E opcodeTable_06 opcodeTable_0E opcodeTable_78
       opcodeTable_79 opcodeTable_C3 F_handlers_unchanged assms(1))

lemma Step_low_nibble:
  assumes "F (Registers cpu) AND 0x0F = 0"
  shows "F (Registers (snd (Step cpu))) AND 0x0F = 0"
proof (cases "Halted cpu")
  case True
  then show ?thesis using assms by (simp add: Step_def)
next
  case False
  let ?cpu1 = "cpu\<lparr>Registers := (Registers cpu)\<lparr>PC := PC (Registers cpu) + 1\<rparr>\<rparr>"
  have "F (Registers ?cpu1) AND 0x0F = 0" using assms by simp
  from Execute_low_nibble [OF this unat_opcode_less]
  show ?thesis using False by (simp add: Step_running Let_def)
qed

lemma Steps_low_nibble:
  "F (Registers (((\<lambda>c. snd (Step c)) ^^ k) (NewCPU mem))) AND 0x0F = 0"
proof (induction k)
  case 0
  show ?case by (simp add: NewCPU_def NewRegisters_def)
next
  case (Suc k)
  then show ?case by (simp add: Step_low_nibble)
qed

text \<open>
  Claim C4, as amended. The low nibble of F is zero in the initial register state.
  \<^verbatim>\<open>SetAF\<close> and \<^verbatim>\<open>SetFlags\<close> store an F whose bits 3..0 are zero, whatever F
  was. \<^verbatim>\<open>SetFlagZ\<close>, \<^verbatim>\<open>SetFlagN\<close>, \<^verbatim>\<open>SetFlagH\<close>, \<^verbatim>\<open>SetFlagC\<close>, and
  \<^verbatim>\<open>SetFlag\<close> with a mask that has no bit in the low nibble, leave bits 3..0 of F zero
  when they were zero before. The handler of every one of the 256 table entries, and
  \<^verbatim>\<open>Step\<close>, leave them zero when they were zero before; so they are zero after any
  number of steps of a fresh core.
\<close>

theorem F_low_nibble_preserved:
  "F NewRegisters AND 0x0F = 0 \<and>
   F (SetAF r v) AND 0x0F = 0 \<and>
   F (SetFlags r z n h c) AND 0x0F = 0 \<and>
   (F r AND 0x0F = 0 \<longrightarrow>
      F (SetFlagZ r b) AND 0x0F = 0 \<and> F (SetFlagN r b) AND 0x0F = 0 \<and>
      F (SetFlagH r b) AND 0x0F = 0 \<and> F (SetFlagC r b) AND 0x0F = 0 \<and>
      (flag AND 0x0F = 0 \<longrightarrow> F (SetFlag r flag b) AND 0x0F = 0)) \<and>
   (F (Registers cpu) AND 0x0F = 0 \<longrightarrow>
      (\<forall>i < 256. F (Registers (Execute (opcodeTable ! i) cpu)) AND 0x0F = 0) \<and>
      F (Registers (snd (Step cpu))) AND 0x0F = 0) \<and>
   F (Registers (((\<lambda>c. snd (Step c)) ^^ k) (NewCPU mem))) AND 0x0F = 0"
proof -
  have "F NewRegisters AND 0x0F = 0" by (simp add: NewRegisters_def)
  then show ?thesis
    by (simp add: SetAF_low_nibble SetFlags_low_nibble SetFlagZNHC_low_nibble
          SetFlag_low_nibble Execute_low_nibble Step_low_nibble Steps_low_nibble)
qed

theorem F_low_nibble_preserved_witness:
  "F (SetFlags NewRegisters True False True True) AND 0x0F = 0 \<and>
   F (SetFlagZ (SetFlags NewRegisters True False True True) False) AND 0x0F = 0 \<and>
   F (SetFlag (SetFlags NewRegisters True False True True) FlagN True) AND 0x0F = 0 \<and>
   F (Registers (Execute (opcodeTable ! 0x80) (setupCPU [0x80]))) AND 0x0F = 0 \<and>
   F (Registers (snd (Step (setupCPU [0x80])))) AND 0x0F = 0"
proof -
  let ?r = "SetFlags NewRegisters True False True True"
  have r: "F ?r AND 0x0F = 0"
    by (simp add: SetFlags_def NewRegisters_def FlagZ_def FlagH_def FlagC_def)
  have fl: "FlagN AND 0x0F = 0" by (simp add: FlagN_def)
  have c: "F (Registers (setupCPU [0x80])) AND 0x0F = 0"
    by (simp add: Registers_setupCPU NewRegisters_def)
  have i: "(0x80 :: nat) < 256" by simp
  note t = F_low_nibble_preserved [where r = ?r and b = False and cpu = "setupCPU [0x80]"]
  note u = F_low_nibble_preserved [where r = ?r and b = True and flag = FlagN]
  from t r have 1: "F (SetFlagZ ?r False) AND 0x0F = 0" by blast
  from u r fl have 2: "F (SetFlag ?r FlagN True) AND 0x0F = 0" by blast
  from t c i have 3: "F (Registers (Execute (opcodeTable ! 0x80) (setupCPU [0x80]))) AND 0x0F = 0"
    by blast
  from t c have 4: "F (Registers (snd (Step (setupCPU [0x80])))) AND 0x0F = 0" by blast
  from r 1 2 3 4 show ?thesis by blast
qed

text \<open>
  Claim C4 as stated fails: only \<^verbatim>\<open>SetAF\<close> masks. A plain assignment to the exported
  field F stores the byte as it is, and \<^verbatim>\<open>SetFlag\<close> ORs its mask argument into F
  unmasked, so a mask with a low bit sets a low bit of F.
\<close>

theorem F_write_not_masked:
  "F (NewRegisters\<lparr>F := 0xFF\<rparr>) AND 0x0F \<noteq> 0 \<and>
   F (SetFlag NewRegisters 0x01 True) AND 0x0F \<noteq> 0"
  by (simp add: SetFlag_def NewRegisters_def)

end
